theory Spec2Isabelle
  imports Complex_Main "HOL-Library.AList" "HOL-Library.Multiset" "HOL-Library.Monad_Syntax"
begin

section \<open>JavaScript values\<close>

text \<open>
  A JavaScript string is a sequence of UTF-16 code units; a code unit is modelled as a
  natural number (below 65536 in every string the platform produces). \<open>str\<close> turns a
  literal of the source into its code units.
\<close>

type_synonym jsstring = "nat list"

definition str :: "string \<Rightarrow> jsstring" where
  "str s = map of_char s"

text \<open>
  A Number that \<open>JSON.parse\<close> can return: a finite IEEE double, given by the real it
  denotes (the two zeros are not told apart; nothing here observes the difference), or an
  infinity. \<open>NaN\<close> is never the value of a JSON text.
\<close>

datatype jsnum = Finite real | PosInfinity | NegInfinity

text \<open>
  The values \<open>JSON.parse\<close> can return, and \<open>undefined\<close>. An object is the list of its own
  properties, in the order they were created.
\<close>

datatype jsval =
    Undefined
  | JNull
  | JBool bool
  | JNum jsnum
  | JStr jsstring
  | JArr "jsval list"
  | JObj "(jsstring \<times> jsval) list"

datatype js_error =
    SyntaxError
  | InvalidCharacterError
  | TypeError
  | RangeError
  | Error jsstring

text \<open>\<open>ToBoolean\<close>: what \<open>if (v)\<close> and \<open>!v\<close> test.\<close>

fun truthy :: "jsval \<Rightarrow> bool" where
  "truthy Undefined = False"
| "truthy JNull = False"
| "truthy (JBool b) = b"
| "truthy (JNum x) = (x \<noteq> Finite 0)"
| "truthy (JStr s) = (s \<noteq> [])"
| "truthy (JArr _) = True"
| "truthy (JObj _) = True"

section \<open>Dates\<close>

text \<open>
  A \<open>Date\<close> holds a time value: an integral number of milliseconds since the epoch, of
  magnitude at most \<open>8.64e15\<close>, or \<open>NaN\<close> (an Invalid Date), which is \<open>None\<close> here.
\<close>

type_synonym date = "int option"

definition maxTime :: int where
  "maxTime = 8640000000000000"

definition valid_time :: "int \<Rightarrow> bool" where
  "valid_time t = (\<bar>t\<bar> \<le> maxTime)"

text \<open>\<open>TimeClip\<close>, applied by \<open>new Date(number)\<close>: out of range gives \<open>NaN\<close>, otherwise the
  number is truncated towards zero.\<close>

definition TimeClip :: "real \<Rightarrow> date" where
  "TimeClip x =
     (if \<bar>x\<bar> > real_of_int maxTime then None
      else Some (if x \<ge> 0 then \<lfloor>x\<rfloor> else \<lceil>x\<rceil>))"

text \<open>
  What the program takes from its host: the local time zone, read by
  \<open>Date.prototype.getTimezoneOffset\<close> (minutes, UTC minus local time, at a given time
  value), and the parts of the platform the language standard leaves to the
  implementation.
\<close>

record host =
  timezoneOffset :: "int \<Rightarrow> int"
  parseOther :: "jsstring \<Rightarrow> date"
  numberToString :: "real \<Rightarrow> jsstring"

definition getTime :: "date \<Rightarrow> real option" where
  "getTime d = map_option real_of_int d"

definition getTimezoneOffset :: "host \<Rightarrow> date \<Rightarrow> real option" where
  "getTimezoneOffset h d = map_option (\<lambda>t. real_of_int (timezoneOffset h t)) d"

section \<open>The catalog and the component's state\<close>

record timezone =
  tz_id :: jsstring
  tz_name :: jsstring
  tz_offset :: real

definition timezones :: "timezone list" where
  "timezones =
     [\<lparr>tz_id = str ''UTC'', tz_name = str ''Universal Time Coordinated'', tz_offset = 0\<rparr>,
      \<lparr>tz_id = str ''IST'', tz_name = str ''India Standard Time'', tz_offset = 11 / 2\<rparr>,
      \<lparr>tz_id = str ''EST'', tz_name = str ''Eastern Standard Time'', tz_offset = - 5\<rparr>,
      \<lparr>tz_id = str ''PST'', tz_name = str ''Pacific Standard Time'', tz_offset = - 8\<rparr>]"

text \<open>
  The \<open>useState\<close> cells of \<open>TimeZoneConverter\<close>. An element of \<open>availableTimezones\<close> is a
  catalog entry or \<open>undefined\<close> (\<open>None\<close>), which \<open>timezones.find\<close> returns when nothing
  matches. \<open>sliderValue\<close> is \<open>None\<close> when it is \<open>NaN\<close>.
\<close>

record state =
  selectedTime :: date
  activeTimezones :: "jsval list"
  availableTimezones :: "timezone option list"
  isDarkMode :: bool
  shareableLink :: jsstring
  isLoading :: bool
  error :: jsstring
  isCopied :: bool
  sliderValue :: "int option"

text \<open>\<open>xs.includes(s)\<close> for a string \<open>s\<close>: some element is that string.\<close>

definition js_includes :: "jsval list \<Rightarrow> jsstring \<Rightarrow> bool" where
  "js_includes xs s = (JStr s \<in> set xs)"

text \<open>The initial values of the cells; \<open>now\<close> is the time value of \<open>new Date()\<close>.\<close>

definition initial_state :: "int \<Rightarrow> state" where
  "initial_state now =
     \<lparr>selectedTime = Some now,
      activeTimezones = [JStr (str ''UTC''), JStr (str ''IST'')],
      availableTimezones =
        map Some (filter (\<lambda>tz. \<not> js_includes [JStr (str ''UTC''), JStr (str ''IST'')] (tz_id tz))
          timezones),
      isDarkMode = False,
      shareableLink = [],
      isLoading = True,
      error = [],
      isCopied = False,
      sliderValue = Some 0\<rparr>"

section \<open>Event handlers\<close>

text \<open>
  A handler reads the cells of the current render and queues new values. Its model
  returns the state of the next render and the exception the handler let escape, if any:
  updates queued before a throw still take effect.
\<close>

type_synonym outcome = "state \<times> js_error option"

subsection \<open>\<open>parseInt\<close> and the slider\<close>

definition isStrWhiteSpace :: "nat \<Rightarrow> bool" where
  "isStrWhiteSpace c =
     (c \<in> {9, 10, 11, 12, 13, 32, 160, 5760, 8232, 8233, 8239, 8287, 12288, 65279}
      \<or> (8192 \<le> c \<and> c \<le> 8202))"

definition digitValue :: "nat \<Rightarrow> nat option" where
  "digitValue c =
     (if 48 \<le> c \<and> c \<le> 57 then Some (c - 48)
      else if 97 \<le> c \<and> c \<le> 122 then Some (c - 87)
      else if 65 \<le> c \<and> c \<le> 90 then Some (c - 55)
      else None)"

definition isRadixDigit :: "nat \<Rightarrow> nat \<Rightarrow> bool" where
  "isRadixDigit r c = (case digitValue c of None \<Rightarrow> False | Some v \<Rightarrow> v < r)"

definition digitsValue :: "nat \<Rightarrow> jsstring \<Rightarrow> nat" where
  "digitsValue r z = foldl (\<lambda>acc c. acc * r + the (digitValue c)) 0 z"

text \<open>\<open>parseInt(string)\<close> with no radix; \<open>None\<close> is \<open>NaN\<close>.\<close>

definition parseInt :: "jsstring \<Rightarrow> int option" where
  "parseInt inputString =
     (let s = dropWhile isStrWhiteSpace inputString;
          neg = (s \<noteq> [] \<and> hd s = 45);
          s1 = (if s \<noteq> [] \<and> (hd s = 43 \<or> hd s = 45) then tl s else s);
          hex = (length s1 \<ge> 2 \<and> hd s1 = 48 \<and> (hd (tl s1) = 120 \<or> hd (tl s1) = 88));
          r = (if hex then 16 else 10);
          s2 = (if hex then drop 2 s1 else s1);
          z = takeWhile (isRadixDigit r) s2
      in if z = [] then None
         else Some ((if neg then - 1 else 1) * int (digitsValue r z)))"

definition new_Date_number :: "real option \<Rightarrow> date" where
  "new_Date_number x = (case x of None \<Rightarrow> None | Some r \<Rightarrow> TimeClip r)"

definition handleSliderChange :: "state \<Rightarrow> jsstring \<Rightarrow> state" where
  "handleSliderChange s event_target_value =
     (let value = parseInt event_target_value;
          newTime = new_Date_number
            (case (getTime (selectedTime s), value) of
               (Some t, Some v) \<Rightarrow> Some (t + real_of_int v * 60000)
             | _ \<Rightarrow> None)
      in s\<lparr>sliderValue := value, selectedTime := newTime\<rparr>)"

subsection \<open>The active list\<close>

text \<open>\<open>addTimezone\<close>: \<open>tz.id\<close> of an \<open>undefined\<close> element throws a \<open>TypeError\<close>, after the
  new active list has been queued.\<close>

definition addTimezone :: "state \<Rightarrow> jsstring \<Rightarrow> outcome" where
  "addTimezone s tzId =
     (if tzId \<noteq> [] then
        (let s1 = s\<lparr>activeTimezones := activeTimezones s @ [JStr tzId]\<rparr>
         in if None \<in> set (availableTimezones s) then (s1, Some TypeError)
            else (s1\<lparr>availableTimezones :=
                       filter (\<lambda>tz. tz_id (the tz) \<noteq> tzId) (availableTimezones s)\<rparr>, None))
      else (s, None))"

definition removeTimezone :: "state \<Rightarrow> jsstring \<Rightarrow> outcome" where
  "removeTimezone s tzId =
     (s\<lparr>activeTimezones := filter (\<lambda>i. i \<noteq> JStr tzId) (activeTimezones s),
        availableTimezones :=
          availableTimezones s @ [find (\<lambda>tz. tz_id tz = tzId) timezones]\<rparr>, None)"

text \<open>The start index of \<open>Array.prototype.splice\<close>, relative to the length.\<close>

definition relativeStart :: "int \<Rightarrow> nat \<Rightarrow> nat" where
  "relativeStart i len = (if i < 0 then nat (max (int len + i) 0) else min (nat i) len)"

text \<open>\<open>const [reorderedItem] = items.splice(start, 1)\<close>: the removed element, or
  \<open>undefined\<close> when \<open>start\<close> is at the end, and the array left.\<close>

definition splice_remove1 :: "jsval list \<Rightarrow> int \<Rightarrow> jsval \<times> jsval list" where
  "splice_remove1 items start =
     (let k = relativeStart start (length items)
      in if k < length items then (items ! k, take k items @ drop (Suc k) items)
         else (Undefined, items))"

text \<open>\<open>items.splice(start, 0, item)\<close>.\<close>

definition splice_insert :: "jsval list \<Rightarrow> int \<Rightarrow> jsval \<Rightarrow> jsval list" where
  "splice_insert items start item =
     (let k = relativeStart start (length items)
      in take k items @ [item] @ drop k items)"

definition move :: "jsval list \<Rightarrow> int \<Rightarrow> int \<Rightarrow> jsval list" where
  "move items source_index destination_index =
     (case splice_remove1 items source_index of
        (reorderedItem, items1) \<Rightarrow> splice_insert items1 destination_index reorderedItem)"

text \<open>\<open>onDragEnd\<close>: \<open>result.destination\<close> is \<open>null\<close> (\<open>None\<close>) when the item was dropped
  outside the list.\<close>

definition onDragEnd :: "state \<Rightarrow> int \<Rightarrow> int option \<Rightarrow> outcome" where
  "onDragEnd s source_index destination =
     (case destination of
        None \<Rightarrow> (s, None)
      | Some destination_index \<Rightarrow>
          (s\<lparr>activeTimezones := move (activeTimezones s) source_index destination_index\<rparr>,
           None))"

definition reverseOrder :: "state \<Rightarrow> outcome" where
  "reverseOrder s = (s\<lparr>activeTimezones := rev (activeTimezones s)\<rparr>, None)"

subsection \<open>Time conversion\<close>

definition getTimeInTimezone :: "host \<Rightarrow> date \<Rightarrow> real \<Rightarrow> date" where
  "getTimeInTimezone h d tzOffset =
     new_Date_number
       (case (getTime d, getTimezoneOffset h d) of
          (Some t, Some off) \<Rightarrow> Some ((t + off * 60000) + 3600000 * tzOffset)
        | _ \<Rightarrow> None)"

subsection \<open>Sequences of list transitions\<close>

text \<open>The user actions on the active list: choosing an entry of the select (\<open>Add\<close>),
  the remove button of a row (\<open>Remove\<close>), the end of a drag with its source index and its
  destination, if any (\<open>Move\<close>), and the reverse button.\<close>

datatype event =
    Add jsstring
  | Remove jsstring
  | Move int "int option"
  | Reverse

fun step :: "state \<Rightarrow> event \<Rightarrow> outcome" where
  "step s (Add tzId) = addTimezone s tzId"
| "step s (Remove tzId) = removeTimezone s tzId"
| "step s (Move source_index destination) = onDragEnd s source_index destination"
| "step s Reverse = reverseOrder s"

fun run :: "state \<Rightarrow> event list \<Rightarrow> state" where
  "run s [] = s"
| "run s (e # es) = run (fst (step s e)) es"

text \<open>The preconditions the specification gives the four transitions.\<close>

fun precondition :: "state \<Rightarrow> event \<Rightarrow> bool" where
  "precondition s (Add tzId) =
     (tzId \<in> set (map tz_id timezones) \<and> JStr tzId \<notin> set (activeTimezones s))"
| "precondition s (Remove tzId) = (JStr tzId \<in> set (activeTimezones s))"
| "precondition s (Move source_index None) = True"
| "precondition s (Move source_index (Some destination_index)) =
     (0 \<le> source_index \<and> nat source_index < length (activeTimezones s)
      \<and> 0 \<le> destination_index \<and> nat destination_index < length (activeTimezones s))"
| "precondition s Reverse = True"

fun preconditions :: "state \<Rightarrow> event list \<Rightarrow> bool" where
  "preconditions s [] = True"
| "preconditions s (e # es) = (precondition s e \<and> preconditions (fst (step s e)) es)"

text \<open>The invariant of the specification: the active list has no duplicates and holds
  catalog ids only; the available list is, without repetition, the catalog entries whose
  id is not active.\<close>

definition zone_invariant :: "state \<Rightarrow> bool" where
  "zone_invariant s =
     (distinct (activeTimezones s)
      \<and> set (activeTimezones s) \<subseteq> set (map (\<lambda>tz. JStr (tz_id tz)) timezones)
      \<and> distinct (availableTimezones s)
      \<and> set (availableTimezones s)
          = set (map Some (filter (\<lambda>tz. JStr (tz_id tz) \<notin> set (activeTimezones s)) timezones)))"

text \<open>A host in the time zone of New York in winter: local time is five hours behind
  UTC.\<close>

definition host_new_york :: host where
  "host_new_york =
     \<lparr>timezoneOffset = (\<lambda>t. 300), parseOther = (\<lambda>s. None), numberToString = (\<lambda>x. [])\<rparr>"

section \<open>The share token\<close>

subsection \<open>\<open>btoa\<close> and \<open>atob\<close>\<close>

text \<open>The character of a six-bit value in the base64 alphabet
  \<open>A\<close>--\<open>Z\<close>, \<open>a\<close>--\<open>z\<close>, \<open>0\<close>--\<open>9\<close>, \<open>+\<close>, \<open>/\<close>, and the value of a character.\<close>

definition b64_char :: "nat \<Rightarrow> nat" where
  "b64_char n =
     (if n < 26 then 65 + n
      else if n < 52 then 97 + (n - 26)
      else if n < 62 then 48 + (n - 52)
      else if n = 62 then 43
      else 47)"

definition b64_index :: "nat \<Rightarrow> nat option" where
  "b64_index c =
     (if 65 \<le> c \<and> c \<le> 90 then Some (c - 65)
      else if 97 \<le> c \<and> c \<le> 122 then Some (c - 97 + 26)
      else if 48 \<le> c \<and> c \<le> 57 then Some (c - 48 + 52)
      else if c = 43 then Some 62
      else if c = 47 then Some 63
      else None)"

text \<open>Three bytes give four six-bit values; a last group of one or two bytes gives two
  or three.\<close>

fun b64_sextets :: "nat list \<Rightarrow> nat list" where
  "b64_sextets [] = []"
| "b64_sextets [a] = [a div 4, (a mod 4) * 16]"
| "b64_sextets [a, b] = [a div 4, (a mod 4) * 16 + b div 16, (b mod 16) * 4]"
| "b64_sextets (a # b # c # rest) =
     [a div 4, (a mod 4) * 16 + b div 16, (b mod 16) * 4 + c div 64, c mod 64]
     @ b64_sextets rest"

text \<open>The characters of the six-bit values, padded with \<open>=\<close> to a multiple of four.\<close>

definition b64_encode :: "nat list \<Rightarrow> nat list" where
  "b64_encode bytes =
     map b64_char (b64_sextets bytes) @ replicate ((3 - length bytes mod 3) mod 3) 61"

text \<open>\<open>btoa\<close> throws when a code unit is above \<open>0xFF\<close>.\<close>

definition btoa :: "jsstring \<Rightarrow> js_error + jsstring" where
  "btoa data =
     (if list_ex (\<lambda>c. c > 255) data then Inl InvalidCharacterError
      else Inr (b64_encode data))"

definition isAsciiWhitespace :: "nat \<Rightarrow> bool" where
  "isAsciiWhitespace c = (c \<in> {9, 10, 12, 13, 32})"

fun b64_bytes :: "nat list \<Rightarrow> nat list" where
  "b64_bytes (s1 # s2 # s3 # s4 # rest) =
     [s1 * 4 + s2 div 16, (s2 mod 16) * 16 + s3 div 4, (s3 mod 4) * 64 + s4] @ b64_bytes rest"
| "b64_bytes [s1, s2, s3] = [s1 * 4 + s2 div 16, (s2 mod 16) * 16 + s3 div 4]"
| "b64_bytes [s1, s2] = [s1 * 4 + s2 div 16]"
| "b64_bytes _ = []"

text \<open>
  \<open>atob\<close> is the forgiving base64 decoding of the HTML standard: ASCII whitespace is
  removed; when the length is then a multiple of four, one or two \<open>=\<close> at the end are
  removed; a length of one more than a multiple of four, or a character outside the
  alphabet, is an error; the six-bit values are put together, and the bits left over after
  the last whole byte are dropped. (The standard counts code points; a string with a code
  point outside the alphabet is an error either way.)
\<close>

definition strip_padding :: "nat list \<Rightarrow> nat list" where
  "strip_padding d =
     (if length d mod 4 = 0 \<and> d \<noteq> [] \<and> last d = 61 then
        (if butlast d \<noteq> [] \<and> last (butlast d) = 61 then butlast (butlast d) else butlast d)
      else d)"

definition atob :: "jsstring \<Rightarrow> js_error + jsstring" where
  "atob data =
     (let d = strip_padding (filter (\<lambda>c. \<not> isAsciiWhitespace c) data)
      in if length d mod 4 = 1 \<or> list_ex (\<lambda>c. b64_index c = None) d
         then Inl InvalidCharacterError
         else Inr (b64_bytes (map (\<lambda>c. the (b64_index c)) d)))"

subsection \<open>\<open>JSON.stringify\<close>\<close>

definition hex_digit :: "nat \<Rightarrow> nat" where
  "hex_digit n = (if n < 10 then 48 + n else 97 + (n - 10))"

definition isHighSurrogate :: "nat \<Rightarrow> bool" where
  "isHighSurrogate c = (55296 \<le> c \<and> c \<le> 56319)"

definition isLowSurrogate :: "nat \<Rightarrow> bool" where
  "isLowSurrogate c = (56320 \<le> c \<and> c \<le> 57343)"

text \<open>The escape of one code unit in \<open>QuoteJSONString\<close>; a surrogate that gets here is
  not part of a pair.\<close>

definition quote_unit :: "nat \<Rightarrow> nat list" where
  "quote_unit c =
     (if c = 8 then [92, 98]
      else if c = 9 then [92, 116]
      else if c = 10 then [92, 110]
      else if c = 12 then [92, 102]
      else if c = 13 then [92, 114]
      else if c = 34 then [92, 34]
      else if c = 92 then [92, 92]
      else if c < 32 \<or> isHighSurrogate c \<or> isLowSurrogate c then
        [92, 117, hex_digit (c div 4096), hex_digit (c div 256 mod 16),
         hex_digit (c div 16 mod 16), hex_digit (c mod 16)]
      else [c])"

fun quote_units :: "nat list \<Rightarrow> nat list" where
  "quote_units [] = []"
| "quote_units [c] = quote_unit c"
| "quote_units (c # d # cs) =
     (if isHighSurrogate c \<and> isLowSurrogate d then c # d # quote_units cs
      else quote_unit c @ quote_units (d # cs))"

definition QuoteJSONString :: "jsstring \<Rightarrow> jsstring" where
  "QuoteJSONString s = [34] @ quote_units s @ [34]"

fun join :: "nat list \<Rightarrow> nat list list \<Rightarrow> nat list" where
  "join sep [] = []"
| "join sep [x] = x"
| "join sep (x # y # ys) = x @ sep @ join sep (y # ys)"

definition isDigit :: "nat \<Rightarrow> bool" where
  "isDigit c = (48 \<le> c \<and> c \<le> 57)"

definition digits_nat :: "nat list \<Rightarrow> nat" where
  "digits_nat ds = foldl (\<lambda>acc c. acc * 10 + (c - 48)) 0 ds"

text \<open>The array index a property name denotes, if any: the canonical decimal numeral of
  a number below \<open>2 ^ 32 - 1\<close>.\<close>

definition array_index :: "jsstring \<Rightarrow> nat option" where
  "array_index k =
     (if k \<noteq> [] \<and> list_all isDigit k \<and> (k = [48] \<or> hd k \<noteq> 48)
         \<and> digits_nat k < 4294967295
      then Some (digits_nat k) else None)"

text \<open>The own properties in the order they are enumerated: array indices first, in
  ascending order, then the other names in the order of their creation.\<close>

definition ordered_properties :: "(jsstring \<times> 'a) list \<Rightarrow> (jsstring \<times> 'a) list" where
  "ordered_properties kvs =
     sort_key (\<lambda>kv. the (array_index (fst kv))) (filter (\<lambda>kv. array_index (fst kv) \<noteq> None) kvs)
     @ filter (\<lambda>kv. array_index (fst kv) = None) kvs"

text \<open>\<open>Number::toString\<close>; the digits of a finite number are the host's.\<close>

definition Number_toString :: "host \<Rightarrow> jsnum \<Rightarrow> jsstring" where
  "Number_toString h x =
     (case x of
        Finite r \<Rightarrow> numberToString h r
      | PosInfinity \<Rightarrow> str ''Infinity''
      | NegInfinity \<Rightarrow> str ''-Infinity'')"

text \<open>The serialisation of a value that is not \<open>undefined\<close>, with no indentation. An
  infinite number is written \<open>null\<close>; in an array \<open>undefined\<close> is written \<open>null\<close>; a
  property whose value is \<open>undefined\<close> is left out. (No value here has a callable
  \<open>toJSON\<close>.)\<close>

fun SerializeJSONProperty :: "host \<Rightarrow> jsval \<Rightarrow> jsstring" where
  "SerializeJSONProperty h Undefined = []"
| "SerializeJSONProperty h JNull = str ''null''"
| "SerializeJSONProperty h (JBool b) = (if b then str ''true'' else str ''false'')"
| "SerializeJSONProperty h (JNum x) =
     (case x of Finite r \<Rightarrow> numberToString h r | _ \<Rightarrow> str ''null'')"
| "SerializeJSONProperty h (JStr s) = QuoteJSONString s"
| "SerializeJSONProperty h (JArr xs) =
     [91] @ join [44]
        (map (\<lambda>x. if x = Undefined then str ''null'' else SerializeJSONProperty h x) xs)
     @ [93]"
| "SerializeJSONProperty h (JObj kvs) =
     [123] @ join [44]
        (map (\<lambda>kt. QuoteJSONString (fst kt) @ [58] @ snd kt)
           (ordered_properties
              (map (\<lambda>kv. (fst kv, SerializeJSONProperty h (snd kv)))
                 (filter (\<lambda>kv. snd kv \<noteq> Undefined) kvs))))
     @ [125]"


subsection \<open>\<open>JSON.parse\<close>\<close>

text \<open>The result of a parser: a value and the input left, no parse (a \<open>SyntaxError\<close>),
  or a recursion budget used up.\<close>

datatype 'a parsed = Parsed 'a "nat list" | NoParse | NoFuel

definition isJSONWhiteSpace :: "nat \<Rightarrow> bool" where
  "isJSONWhiteSpace c = (c \<in> {9, 10, 13, 32})"

definition skip_ws :: "nat list \<Rightarrow> nat list" where
  "skip_ws s = dropWhile isJSONWhiteSpace s"

definition hexValue :: "nat \<Rightarrow> nat option" where
  "hexValue c =
     (if 48 \<le> c \<and> c \<le> 57 then Some (c - 48)
      else if 97 \<le> c \<and> c \<le> 102 then Some (c - 87)
      else if 65 \<le> c \<and> c \<le> 70 then Some (c - 55)
      else None)"

text \<open>The character after a backslash, other than \<open>u\<close>.\<close>

definition unescape :: "nat \<Rightarrow> nat option" where
  "unescape e =
     (if e = 34 then Some 34
      else if e = 92 then Some 92
      else if e = 47 then Some 47
      else if e = 98 then Some 8
      else if e = 102 then Some 12
      else if e = 110 then Some 10
      else if e = 114 then Some 13
      else if e = 116 then Some 9
      else None)"

definition cons_unit :: "nat \<Rightarrow> (jsstring \<times> nat list) option \<Rightarrow> (jsstring \<times> nat list) option" where
  "cons_unit u r = (case r of None \<Rightarrow> None | Some (s, rest) \<Rightarrow> Some (u # s, rest))"

text \<open>The characters of a string, after the opening quote, up to the closing quote.\<close>

fun parse_string_chars :: "nat list \<Rightarrow> (jsstring \<times> nat list) option" where
  "parse_string_chars [] = None"
| "parse_string_chars (c # cs) =
     (if c = 34 then Some ([], cs)
      else if c = 92 then
        (case cs of
           [] \<Rightarrow> None
         | e # cs1 \<Rightarrow>
             if e = 117 then
               (case cs1 of
                  h1 # h2 # h3 # h4 # cs2 \<Rightarrow>
                    (case (hexValue h1, hexValue h2, hexValue h3, hexValue h4) of
                       (Some a, Some b, Some x, Some d) \<Rightarrow>
                         cons_unit (a * 4096 + b * 256 + x * 16 + d) (parse_string_chars cs2)
                     | _ \<Rightarrow> None)
                | _ \<Rightarrow> None)
             else
               (case unescape e of
                  None \<Rightarrow> None
                | Some u \<Rightarrow> cons_unit u (parse_string_chars cs1)))
      else if c < 32 then None
      else cons_unit c (parse_string_chars cs))"

text \<open>
  The Number value for a positive rational \<open>p / q\<close>: the nearest double, a tie going to
  the even significand; subnormal below \<open>2 ^ -1022\<close>, infinite from
  \<open>2 ^ 1024 - 2 ^ 970\<close> on. \<open>floor_log2 p q\<close> is the exponent of \<open>p / q\<close>, and \<open>s\<close> the
  exponent of the unit in the last place.
\<close>

fun bit_length :: "nat \<Rightarrow> nat" where
  "bit_length n = (if n = 0 then 0 else Suc (bit_length (n div 2)))"

definition floor_log2 :: "nat \<Rightarrow> nat \<Rightarrow> int" where
  "floor_log2 p q =
     (let k = int (bit_length p) - int (bit_length q)
      in if (if 0 \<le> k then q * 2 ^ nat k \<le> p else q \<le> p * 2 ^ nat (- k)) then k else k - 1)"

definition round_half_even :: "nat \<Rightarrow> nat \<Rightarrow> nat" where
  "round_half_even num den =
     (let f = num div den; r = num mod den
      in if 2 * r < den then f
         else if den < 2 * r then f + 1
         else if even f then f else f + 1)"

definition pow2 :: "int \<Rightarrow> real" where
  "pow2 s = (if 0 \<le> s then 2 ^ nat s else 1 / 2 ^ nat (- s))"

definition toDouble :: "bool \<Rightarrow> nat \<Rightarrow> nat \<Rightarrow> jsnum" where
  "toDouble neg p q =
     (if p = 0 then Finite 0
      else
        (let s = max (floor_log2 p q) (- 1022) - 52;
             m = (if 0 \<le> s then round_half_even p (q * 2 ^ nat s)
                  else round_half_even (p * 2 ^ nat (- s)) q)
         in if 971 < s \<or> (s = 971 \<and> 2 ^ 53 \<le> m)
            then (if neg then NegInfinity else PosInfinity)
            else Finite ((if neg then - 1 else 1) * (real m * pow2 s))))"

text \<open>A number: an optional minus, an integer part with no leading zero, an optional
  fraction and an optional exponent. Its value is the double nearest to the decimal
  numeral. (The standard lets an implementation round a numeral of more than twenty
  significant digits less exactly; the implementations in use round it correctly.)\<close>

definition parse_number :: "nat list \<Rightarrow> (jsnum \<times> nat list) option" where
  "parse_number s =
     (let neg = (s \<noteq> [] \<and> hd s = 45);
          s1 = (if neg then tl s else s);
          ip = takeWhile isDigit s1;
          s2 = dropWhile isDigit s1;
          has_frac = (s2 \<noteq> [] \<and> hd s2 = 46);
          fp = (if has_frac then takeWhile isDigit (tl s2) else []);
          s3 = (if has_frac then dropWhile isDigit (tl s2) else s2);
          has_exp = (s3 \<noteq> [] \<and> (hd s3 = 101 \<or> hd s3 = 69));
          s4 = (if has_exp then tl s3 else s3);
          eneg = (has_exp \<and> s4 \<noteq> [] \<and> hd s4 = 45);
          s5 = (if has_exp \<and> s4 \<noteq> [] \<and> (hd s4 = 43 \<or> hd s4 = 45) then tl s4 else s4);
          ep = (if has_exp then takeWhile isDigit s5 else []);
          s6 = (if has_exp then dropWhile isDigit s5 else s3);
          e10 = (if eneg then - int (digits_nat ep) else int (digits_nat ep)) - int (length fp)
      in if ip = [] \<or> (length ip > 1 \<and> hd ip = 48) \<or> (has_frac \<and> fp = [])
            \<or> (has_exp \<and> ep = []) then None
         else Some
           (if 0 \<le> e10 then toDouble neg (digits_nat (ip @ fp) * 10 ^ nat e10) 1
            else toDouble neg (digits_nat (ip @ fp)) (10 ^ nat (- e10)),
            s6))"

text \<open>The object of a list of members: a later member of the same name replaces the
  value of the earlier one.\<close>

definition object_of :: "(jsstring \<times> jsval) list \<Rightarrow> (jsstring \<times> jsval) list" where
  "object_of kvs = fold (\<lambda>kv acc. AList.update (fst kv) (snd kv) acc) kvs []"

text \<open>
  A value, the elements of an array after its first bracket, and the members of an object
  after its first brace; the caller has skipped the white space in front. The first
  argument bounds the recursion.
\<close>

fun parse_value :: "nat \<Rightarrow> nat list \<Rightarrow> jsval parsed"
  and parse_elements :: "nat \<Rightarrow> nat list \<Rightarrow> jsval list parsed"
  and parse_members :: "nat \<Rightarrow> nat list \<Rightarrow> (jsstring \<times> jsval) list parsed"
where
  "parse_value 0 s = NoFuel"
| "parse_value (Suc n) [] = NoParse"
| "parse_value (Suc n) (c # cs) =
     (if c = 34 then
        (case parse_string_chars cs of
           None \<Rightarrow> NoParse
         | Some (s, rest) \<Rightarrow> Parsed (JStr s) rest)
      else if c = 91 then
        (let r = skip_ws cs
         in if r \<noteq> [] \<and> hd r = 93 then Parsed (JArr []) (tl r)
            else (case parse_elements n r of
                    Parsed xs rest \<Rightarrow> Parsed (JArr xs) rest
                  | NoParse \<Rightarrow> NoParse
                  | NoFuel \<Rightarrow> NoFuel))
      else if c = 123 then
        (let r = skip_ws cs
         in if r \<noteq> [] \<and> hd r = 125 then Parsed (JObj []) (tl r)
            else (case parse_members n r of
                    Parsed kvs rest \<Rightarrow> Parsed (JObj (object_of kvs)) rest
                  | NoParse \<Rightarrow> NoParse
                  | NoFuel \<Rightarrow> NoFuel))
      else if take 4 (c # cs) = str ''true'' then Parsed (JBool True) (drop 4 (c # cs))
      else if take 5 (c # cs) = str ''false'' then Parsed (JBool False) (drop 5 (c # cs))
      else if take 4 (c # cs) = str ''null'' then Parsed JNull (drop 4 (c # cs))
      else (case parse_number (c # cs) of
              None \<Rightarrow> NoParse
            | Some (x, rest) \<Rightarrow> Parsed (JNum x) rest))"
| "parse_elements 0 s = NoFuel"
| "parse_elements (Suc n) s =
     (case parse_value (Suc n) s of
        Parsed v rest \<Rightarrow>
          (case skip_ws rest of
             [] \<Rightarrow> NoParse
           | c # cs \<Rightarrow>
               if c = 93 then Parsed [v] cs
               else if c = 44 then
                 (case parse_elements n (skip_ws cs) of
                    Parsed vs rest' \<Rightarrow> Parsed (v # vs) rest'
                  | NoParse \<Rightarrow> NoParse
                  | NoFuel \<Rightarrow> NoFuel)
               else NoParse)
      | NoParse \<Rightarrow> NoParse
      | NoFuel \<Rightarrow> NoFuel)"
| "parse_members 0 s = NoFuel"
| "parse_members (Suc n) [] = NoParse"
| "parse_members (Suc n) (q # cs) =
     (if q \<noteq> 34 then NoParse
      else
        (case parse_string_chars cs of
           None \<Rightarrow> NoParse
         | Some (k, rest0) \<Rightarrow>
             (case skip_ws rest0 of
                [] \<Rightarrow> NoParse
              | c0 # cs0 \<Rightarrow>
                  if c0 \<noteq> 58 then NoParse
                  else
                    (case parse_value (Suc n) (skip_ws cs0) of
                       Parsed v rest \<Rightarrow>
                         (case skip_ws rest of
                            [] \<Rightarrow> NoParse
                          | c1 # cs1 \<Rightarrow>
                              if c1 = 125 then Parsed [(k, v)] cs1
                              else if c1 = 44 then
                                (case parse_members n (skip_ws cs1) of
                                   Parsed kvs rest' \<Rightarrow> Parsed ((k, v) # kvs) rest'
                                 | NoParse \<Rightarrow> NoParse
                                 | NoFuel \<Rightarrow> NoFuel)
                              else NoParse)
                     | NoParse \<Rightarrow> NoParse
                     | NoFuel \<Rightarrow> NoFuel))))"

text \<open>\<open>JSON.parse(text)\<close>: one value, with white space around it and nothing else. The
  recursion never goes deeper than the text is long.\<close>

definition JSON_parse :: "jsstring \<Rightarrow> js_error + jsval" where
  "JSON_parse text =
     (case parse_value (Suc (length text)) (skip_ws text) of
        Parsed v rest \<Rightarrow> if skip_ws rest = [] then Inr v else Inl SyntaxError
      | NoParse \<Rightarrow> Inl SyntaxError
      | NoFuel \<Rightarrow> Inl SyntaxError)"


subsection \<open>Dates as text\<close>

text \<open>The calendar of the language standard: days since the epoch, the proleptic
  Gregorian year of a day, and the month and the day of the month within the year.\<close>

definition msPerDay :: int where
  "msPerDay = 86400000"

definition Day :: "int \<Rightarrow> int" where
  "Day t = t div msPerDay"

definition TimeWithinDay :: "int \<Rightarrow> int" where
  "TimeWithinDay t = t mod msPerDay"

definition DaysInYear :: "int \<Rightarrow> int" where
  "DaysInYear y =
     (if y mod 4 \<noteq> 0 then 365
      else if y mod 100 \<noteq> 0 then 366
      else if y mod 400 \<noteq> 0 then 365
      else 366)"

definition DayFromYear :: "int \<Rightarrow> int" where
  "DayFromYear y =
     365 * (y - 1970) + (y - 1969) div 4 - (y - 1901) div 100 + (y - 1601) div 400"

text \<open>The year of a day: the standard defines it as the largest \<open>y\<close> with
  \<open>DayFromYear y \<le> d\<close>; it is computed from an estimate that is off by at most one.\<close>

definition YearFromDay :: "int \<Rightarrow> int" where
  "YearFromDay d =
     (let y0 = 1970 + (400 * d) div 146097
      in if DayFromYear (y0 + 1) \<le> d then y0 + 1
         else if DayFromYear y0 \<le> d then y0
         else y0 - 1)"

definition InLeapYear :: "int \<Rightarrow> int" where
  "InLeapYear y = (if DaysInYear y = 366 then 1 else 0)"

text \<open>The first day of a month (0 to 11) within a year, and the month of a day of the
  year; \<open>l\<close> is 1 in a leap year and 0 otherwise.\<close>

definition MonthStart :: "int \<Rightarrow> int \<Rightarrow> int" where
  "MonthStart m l =
     (if m = 0 then 0 else if m = 1 then 31 else if m = 2 then 59 + l
      else if m = 3 then 90 + l else if m = 4 then 120 + l else if m = 5 then 151 + l
      else if m = 6 then 181 + l else if m = 7 then 212 + l else if m = 8 then 243 + l
      else if m = 9 then 273 + l else if m = 10 then 304 + l else if m = 11 then 334 + l
      else 365 + l)"

definition MonthFromDay :: "int \<Rightarrow> int \<Rightarrow> int" where
  "MonthFromDay dwy l =
     (if dwy < 31 then 0 else if dwy < 59 + l then 1 else if dwy < 90 + l then 2
      else if dwy < 120 + l then 3 else if dwy < 151 + l then 4 else if dwy < 181 + l then 5
      else if dwy < 212 + l then 6 else if dwy < 243 + l then 7 else if dwy < 273 + l then 8
      else if dwy < 304 + l then 9 else if dwy < 334 + l then 10 else 11)"

text \<open>\<open>k\<close> decimal digits of \<open>n\<close>, the most significant first.\<close>

fun pad :: "nat \<Rightarrow> nat \<Rightarrow> nat list" where
  "pad 0 n = []"
| "pad (Suc k) n = pad k (n div 10) @ [48 + n mod 10]"

text \<open>\<open>Date.prototype.toISOString\<close>: \<open>YYYY-MM-DDTHH:mm:ss.sssZ\<close>, the year with a sign
  and six digits when it is not within 0 to 9999; a \<open>RangeError\<close> for an Invalid Date.\<close>

definition toISOString :: "date \<Rightarrow> js_error + jsstring" where
  "toISOString d =
     (case d of
        None \<Rightarrow> Inl RangeError
      | Some t \<Rightarrow>
          (let y = YearFromDay (Day t);
               l = InLeapYear y;
               dwy = Day t - DayFromYear y;
               m = MonthFromDay dwy l;
               dt = dwy - MonthStart m l + 1;
               tw = TimeWithinDay t
           in Inr
             ((if 0 \<le> y \<and> y \<le> 9999 then pad 4 (nat y)
               else (if y < 0 then 45 else 43) # pad 6 (nat \<bar>y\<bar>))
              @ [45] @ pad 2 (nat (m + 1)) @ [45] @ pad 2 (nat dt)
              @ [84] @ pad 2 (nat (tw div 3600000)) @ [58] @ pad 2 (nat (tw div 60000 mod 60))
              @ [58] @ pad 2 (nat (tw div 1000 mod 60)) @ [46] @ pad 3 (nat (tw mod 1000))
              @ [90])))"

definition read_digits :: "nat \<Rightarrow> nat list \<Rightarrow> (nat \<times> nat list) option" where
  "read_digits k s =
     (if k \<le> length s \<and> list_all isDigit (take k s)
      then Some (digits_nat (take k s), drop k s) else None)"

definition expect :: "nat \<Rightarrow> nat list \<Rightarrow> nat list option" where
  "expect c s = (case s of [] \<Rightarrow> None | x # xs \<Rightarrow> if x = c then Some xs else None)"

text \<open>A year: four digits, or a sign and six digits, \<open>-000000\<close> excluded.\<close>

definition read_year :: "nat list \<Rightarrow> (int \<times> nat list) option" where
  "read_year s =
     (case s of
        [] \<Rightarrow> None
      | c # cs \<Rightarrow>
          if c = 43 \<or> c = 45 then
            (case read_digits 6 cs of
               None \<Rightarrow> None
             | Some (n, r) \<Rightarrow>
                 if c = 45 \<and> n = 0 then None
                 else Some (if c = 45 then - int n else int n, r))
          else
            (case read_digits 4 s of
               None \<Rightarrow> None
             | Some (n, r) \<Rightarrow> Some (int n, r)))"

text \<open>
  The complete UTC form of the date-time string format, with every field in its range.
  All implementations read it the same way. The time value is \<open>MakeDate\<close> of \<open>MakeDay\<close>
  and \<open>MakeTime\<close> of the fields.
\<close>

definition parse_iso :: "jsstring \<Rightarrow> int option" where
  "parse_iso s =
     do {
       (y, s1) \<leftarrow> read_year s;
       s2 \<leftarrow> expect 45 s1;
       (mo, s3) \<leftarrow> read_digits 2 s2;
       s4 \<leftarrow> expect 45 s3;
       (dd, s5) \<leftarrow> read_digits 2 s4;
       s6 \<leftarrow> expect 84 s5;
       (hh, s7) \<leftarrow> read_digits 2 s6;
       s8 \<leftarrow> expect 58 s7;
       (mi, s9) \<leftarrow> read_digits 2 s8;
       s10 \<leftarrow> expect 58 s9;
       (ss, s11) \<leftarrow> read_digits 2 s10;
       s12 \<leftarrow> expect 46 s11;
       (ms, s13) \<leftarrow> read_digits 3 s12;
       s14 \<leftarrow> expect 90 s13;
       (let l = InLeapYear y
        in if s14 = [] \<and> 1 \<le> mo \<and> mo \<le> 12 \<and> 1 \<le> dd
              \<and> int dd \<le> MonthStart (int mo) l - MonthStart (int mo - 1) l
              \<and> hh \<le> 23 \<and> mi \<le> 59 \<and> ss \<le> 59
           then Some ((DayFromYear y + MonthStart (int mo - 1) l + int dd - 1) * msPerDay
                      + (int hh * 3600000 + int mi * 60000 + int ss * 1000 + int ms))
           else None)
     }"

text \<open>\<open>Date.parse\<close>: a Number, \<open>NaN\<close> being \<open>None\<close>. What is not of the form above is read
  by the host's own rules.\<close>

definition Date_parse :: "host \<Rightarrow> jsstring \<Rightarrow> real option" where
  "Date_parse h s =
     (case parse_iso s of
        Some t \<Rightarrow> Some (real_of_int t)
      | None \<Rightarrow> getTime (parseOther h s))"

text \<open>The results of a list of computations, up to the first exception.\<close>

fun collect :: "(js_error + 'a) list \<Rightarrow> js_error + 'a list" where
  "collect [] = Inr []"
| "collect (Inl e # rs) = Inl e"
| "collect (Inr x # rs) = (case collect rs of Inl e \<Rightarrow> Inl e | Inr xs \<Rightarrow> Inr (x # xs))"

text \<open>
  \<open>ToString\<close> of a value. An array is its elements joined by commas, \<open>null\<close> and
  \<open>undefined\<close> elements being empty. An object of a JSON text inherits \<open>toString\<close> and
  \<open>valueOf\<close> from \<open>Object.prototype\<close>: its string is \<open>[object Object]\<close>, unless it has
  an own property \<open>toString\<close>, whose value cannot be called; then no method gives a
  primitive value and the conversion throws a \<open>TypeError\<close>.
\<close>

fun ToString :: "host \<Rightarrow> jsval \<Rightarrow> js_error + jsstring" where
  "ToString h Undefined = Inr (str ''undefined'')"
| "ToString h JNull = Inr (str ''null'')"
| "ToString h (JBool b) = Inr (if b then str ''true'' else str ''false'')"
| "ToString h (JNum x) = Inr (Number_toString h x)"
| "ToString h (JStr s) = Inr s"
| "ToString h (JArr xs) =
     (case collect (map (\<lambda>x. if x = Undefined \<or> x = JNull then Inr [] else ToString h x) xs) of
        Inl e \<Rightarrow> Inl e
      | Inr ss \<Rightarrow> Inr (join [44] ss))"
| "ToString h (JObj kvs) =
     (if map_of kvs (str ''toString'') \<noteq> None then Inl TypeError
      else Inr (str ''[object Object]''))"

text \<open>\<open>new Date(value)\<close>: \<open>ToPrimitive\<close> turns an array or an object into its string, or
  throws as above; a string is parsed; anything else is converted to a Number.\<close>

definition new_Date :: "host \<Rightarrow> jsval \<Rightarrow> js_error + date" where
  "new_Date h v =
     (case v of
        Undefined \<Rightarrow> Inr None
      | JNull \<Rightarrow> Inr (TimeClip 0)
      | JBool b \<Rightarrow> Inr (TimeClip (if b then 1 else 0))
      | JNum x \<Rightarrow> (case x of Finite r \<Rightarrow> Inr (TimeClip r) | _ \<Rightarrow> Inr None)
      | JStr s \<Rightarrow> Inr (new_Date_number (Date_parse h s))
      | _ \<Rightarrow>
          (case ToString h v of
             Inl e \<Rightarrow> Inl e
           | Inr s \<Rightarrow> Inr (new_Date_number (Date_parse h s))))"

subsection \<open>Encoding and decoding the state\<close>

text \<open>\<open>btoa(JSON.stringify({time: selectedTime.toISOString(), timezones: activeTimezones}))\<close>.\<close>

definition encodeState :: "host \<Rightarrow> state \<Rightarrow> js_error + jsstring" where
  "encodeState h s =
     (case toISOString (selectedTime s) of
        Inl e \<Rightarrow> Inl e
      | Inr time_string \<Rightarrow>
          btoa (SerializeJSONProperty h
            (JObj [(str ''time'', JStr time_string), (str ''timezones'', JArr (activeTimezones s))])))"

text \<open>\<open>generateShareableLink\<close>, with \<open>window.location.origin\<close> and
  \<open>window.location.pathname\<close>. An exception of the encoding escapes the handler.\<close>

definition generateShareableLink :: "host \<Rightarrow> jsstring \<Rightarrow> jsstring \<Rightarrow> state \<Rightarrow> outcome" where
  "generateShareableLink h origin pathname s =
     (case encodeState h s of
        Inl e \<Rightarrow> (s, Some e)
      | Inr encodedState \<Rightarrow>
          (s\<lparr>shareableLink := origin @ pathname @ str ''?state='' @ encodedState\<rparr>, None))"

text \<open>Reading the property \<open>time\<close> or \<open>timezones\<close> of a parsed value: a \<open>TypeError\<close> on
  \<open>null\<close>, \<open>undefined\<close> when the value has no such property. (No prototype defines
  either name.)\<close>

definition get_property :: "jsval \<Rightarrow> jsstring \<Rightarrow> js_error + jsval" where
  "get_property v k =
     (case v of
        Undefined \<Rightarrow> Inl TypeError
      | JNull \<Rightarrow> Inl TypeError
      | JObj kvs \<Rightarrow> (case map_of kvs k of None \<Rightarrow> Inr Undefined | Some x \<Rightarrow> Inr x)
      | _ \<Rightarrow> Inr Undefined)"

text \<open>The body of the \<open>try\<close> block up to the first \<open>set\<close> call, whose argument
  \<open>new Date(decodedState.time)\<close> is evaluated before the call: the new selected time and
  the new active list, or the exception thrown.\<close>

definition decodeState :: "host \<Rightarrow> jsstring \<Rightarrow> js_error + (date \<times> jsval list)" where
  "decodeState h encodedState =
     (case atob encodedState of
        Inl e \<Rightarrow> Inl e
      | Inr text \<Rightarrow>
          (case JSON_parse text of
             Inl e \<Rightarrow> Inl e
           | Inr decodedState \<Rightarrow>
               (case get_property decodedState (str ''time'') of
                  Inl e \<Rightarrow> Inl e
                | Inr time \<Rightarrow>
                    if \<not> truthy time then Inl (Error (str ''Invalid state format''))
                    else
                      (case get_property decodedState (str ''timezones'') of
                         Inl e \<Rightarrow> Inl e
                       | Inr tzs \<Rightarrow>
                           (case tzs of
                              JArr zs \<Rightarrow>
                                (case new_Date h time of
                                   Inl e \<Rightarrow> Inl e
                                 | Inr d \<Rightarrow> Inr (d, zs))
                            | _ \<Rightarrow> Inl (Error (str ''Invalid state format'')))))))"

definition advisory_message :: jsstring where
  "advisory_message = str ''Failed to load shared configuration. Using default settings.''"

text \<open>The effect that runs after the first render and after each change of
  \<open>isDarkMode\<close>; \<open>encodedState\<close> is what \<open>urlParams.get('state')\<close> returned, \<open>None\<close>
  being \<open>null\<close>. An empty string is falsy, so it is treated like \<open>null\<close>.\<close>

definition useEffect :: "host \<Rightarrow> jsstring option \<Rightarrow> state \<Rightarrow> state" where
  "useEffect h encodedState s =
     (case encodedState of
        None \<Rightarrow> s\<lparr>isLoading := False\<rparr>
      | Some token \<Rightarrow>
          if token = [] then s\<lparr>isLoading := False\<rparr>
          else
            (case decodeState h token of
               Inl e \<Rightarrow>
                 s\<lparr>error := advisory_message, isLoading := False\<rparr>
             | Inr (t, zs) \<Rightarrow>
                 s\<lparr>selectedTime := t,
                    activeTimezones := zs,
                    availableTimezones :=
                      map Some (filter (\<lambda>tz. \<not> js_includes zs (tz_id tz)) timezones),
                    isLoading := False\<rparr>))"


section \<open>Auxiliary notions\<close>

text \<open>A code unit that \<open>JSON.stringify\<close> writes as it is and that may stand in a JSON
  string unescaped.\<close>

definition plain_unit :: "nat \<Rightarrow> bool" where
  "plain_unit c =
     (32 \<le> c \<and> c \<noteq> 34 \<and> c \<noteq> 92 \<and> \<not> isHighSurrogate c \<and> \<not> isLowSurrogate c)"

text \<open>The text of an array of strings that need no escape, without the brackets.\<close>

definition string_elements :: "jsstring list \<Rightarrow> nat list" where
  "string_elements ids = join [44] (map (\<lambda>i. 34 # i @ [34]) ids)"


section \<open>The active list: reordering, adding and removing\<close>

lemma relativeStart_valid: "0 \<le> i \<Longrightarrow> nat i < n \<Longrightarrow> relativeStart i n = nat i"
  by (simp add: relativeStart_def)

lemma relativeStart_le: "0 \<le> i \<Longrightarrow> nat i \<le> n \<Longrightarrow> relativeStart i n = nat i"
  by (simp add: relativeStart_def)

text \<open>With both indices valid, \<open>move\<close> takes the element out and puts it back at the
  destination index of the shortened list.\<close>

lemma move_valid:
  assumes "0 \<le> i" "nat i < length xs" "0 \<le> j" "nat j < length xs"
  shows "move xs i j =
    take (nat j) (take (nat i) xs @ drop (Suc (nat i)) xs) @ [xs ! nat i]
      @ drop (nat j) (take (nat i) xs @ drop (Suc (nat i)) xs)"
proof -
  define rest where "rest = take (nat i) xs @ drop (Suc (nat i)) xs"
  have len: "length rest = length xs - 1"
    using assms by (simp add: rest_def)
  have j: "nat j \<le> length rest" using assms len by simp
  have 1: "splice_remove1 xs i = (xs ! nat i, rest)"
    using assms by (simp add: splice_remove1_def relativeStart_valid rest_def Let_def)
  have 2: "splice_insert rest j (xs ! nat i) = take (nat j) rest @ [xs ! nat i] @ drop (nat j) rest"
    using assms(3) j by (simp add: splice_insert_def relativeStart_le Let_def)
  have "move xs i j = take (nat j) rest @ [xs ! nat i] @ drop (nat j) rest"
    by (simp add: move_def 1 2)
  then show ?thesis unfolding rest_def .
qed

lemma mset_move:
  assumes "0 \<le> i" "nat i < length xs" "0 \<le> j" "nat j < length xs"
  shows "mset (move xs i j) = mset xs"
proof -
  define rest where "rest = take (nat i) xs @ drop (Suc (nat i)) xs"
  have mv: "move xs i j = take (nat j) rest @ [xs ! nat i] @ drop (nat j) rest"
    using move_valid[OF assms] by (simp add: rest_def)
  have "mset xs = mset (take (nat i) xs @ xs ! nat i # drop (Suc (nat i)) xs)"
    using assms by (simp add: id_take_nth_drop[symmetric])
  then have m0: "mset xs = mset rest + {#xs ! nat i#}" by (simp add: rest_def)
  have td: "mset (take (nat j) rest) + mset (drop (nat j) rest) = mset rest"
    by (metis append_take_drop_id mset_append)
  have "mset (move xs i j) = mset (take (nat j) rest) + mset (drop (nat j) rest) + {#xs ! nat i#}"
    by (simp add: mv)
  then show ?thesis using m0 td by simp
qed

text \<open>
  Claim C8. For valid indices \<open>i\<close> and \<open>j\<close>, the drag handler leaves a list of the same
  length and with the same elements counted with multiplicity (a permutation), whose
  element at \<open>j\<close> is the one that was at \<open>i\<close>, and whose other elements are, in order,
  the other elements of the old list. Moving the first of \<open>[UTC, IST, EST]\<close> to the last
  position gives \<open>[IST, EST, UTC]\<close>.
\<close>

theorem onDragEnd_moves:
  assumes "0 \<le> i" "nat i < length (activeTimezones s)"
    and "0 \<le> j" "nat j < length (activeTimezones s)"
  shows "(let xs = activeTimezones s; ys = activeTimezones (fst (onDragEnd s i (Some j)))
          in length ys = length xs \<and> mset ys = mset xs \<and> ys ! nat j = xs ! nat i
             \<and> take (nat j) ys @ drop (Suc (nat j)) ys = take (nat i) xs @ drop (Suc (nat i)) xs)
         \<and> move [JStr (str ''UTC''), JStr (str ''IST''), JStr (str ''EST'')] 0 2
              = [JStr (str ''IST''), JStr (str ''EST''), JStr (str ''UTC'')]"
proof -
  define xs where "xs = activeTimezones s"
  define rest where "rest = take (nat i) xs @ drop (Suc (nat i)) xs"
  have a: "0 \<le> i" "nat i < length xs" "0 \<le> j" "nat j < length xs"
    using assms by (simp_all add: xs_def)
  have lrest: "length rest = length xs - 1" using a by (simp add: rest_def)
  have jr: "nat j \<le> length rest" using a lrest by simp
  have mv: "move xs i j = take (nat j) rest @ [xs ! nat i] @ drop (nat j) rest"
    using move_valid[OF a] by (simp add: rest_def)
  have ys: "activeTimezones (fst (onDragEnd s i (Some j))) = move xs i j"
    by (simp add: onDragEnd_def xs_def)
  have l: "length (move xs i j) = length xs"
    using a jr lrest by (simp add: mv)
  have m: "mset (move xs i j) = mset xs"
    using a by (rule mset_move)
  have n: "move xs i j ! nat j = xs ! nat i"
    using jr by (simp add: mv nth_append)
  have t: "take (nat j) (move xs i j) = take (nat j) rest"
    using jr by (simp add: mv)
  have d: "drop (Suc (nat j)) (move xs i j) = drop (nat j) rest"
    using jr by (simp add: mv)
  have r: "take (nat j) (move xs i j) @ drop (Suc (nat j)) (move xs i j) = rest"
    by (simp add: t d)
  have c: "move [JStr (str ''UTC''), JStr (str ''IST''), JStr (str ''EST'')] 0 2
              = [JStr (str ''IST''), JStr (str ''EST''), JStr (str ''UTC'')]"
    by (simp add: move_def splice_remove1_def splice_insert_def relativeStart_def Let_def)
  show ?thesis
    using l m n r c by (simp add: ys xs_def[symmetric] rest_def Let_def)
qed

theorem onDragEnd_moves_witness:
  "(0::int) \<le> 0 \<and> nat 0 < length (activeTimezones (initial_state 0))
   \<and> (0::int) \<le> 1 \<and> nat 1 < length (activeTimezones (initial_state 0))
   \<and> activeTimezones (fst (onDragEnd (initial_state 0) 0 (Some 1))) ! nat 1
       = activeTimezones (initial_state 0) ! nat 0
   \<and> mset (activeTimezones (fst (onDragEnd (initial_state 0) 0 (Some 1))))
       = mset (activeTimezones (initial_state 0))"
proof -
  have h: "nat 0 < length (activeTimezones (initial_state 0))"
    "nat 1 < length (activeTimezones (initial_state 0))"
    by (simp_all add: initial_state_def)
  show ?thesis
    using h onDragEnd_moves[of 0 "initial_state 0" 1] by (simp add: Let_def)
qed

text \<open>
  Claim C9. When the id is not in the active list, adding it and then removing it gives
  back the same active list, element for element.
\<close>

theorem add_then_remove:
  assumes "JStr tzId \<notin> set (activeTimezones s)"
  shows "activeTimezones (fst (removeTimezone (fst (addTimezone s tzId)) tzId)) = activeTimezones s"
proof -
  have "filter (\<lambda>i. i \<noteq> JStr tzId) (activeTimezones s) = activeTimezones s"
    using assms by (simp add: filter_id_conv) blast
  then show ?thesis
    by (cases "tzId = []") (simp_all add: addTimezone_def removeTimezone_def Let_def)
qed

theorem add_then_remove_witness:
  "JStr (str ''EST'') \<notin> set (activeTimezones (initial_state 0))
   \<and> activeTimezones (fst (removeTimezone (fst (addTimezone (initial_state 0) (str ''EST''))) (str ''EST'')))
       = [JStr (str ''UTC''), JStr (str ''IST'')]"
proof -
  have h: "JStr (str ''EST'') \<notin> set (activeTimezones (initial_state 0))"
    by (simp add: initial_state_def str_def)
  show ?thesis
    using h add_then_remove[OF h] by (simp add: initial_state_def)
qed

section \<open>The invariant of the two lists\<close>

lemma catalog_ids: "map tz_id timezones = [str ''UTC'', str ''IST'', str ''EST'', str ''PST'']"
  by (simp add: timezones_def)

lemma distinct_catalog_ids: "distinct (map tz_id timezones)"
  by (simp add: catalog_ids str_def)

lemma distinct_map_unique:
  "distinct (map f xs) \<Longrightarrow> x \<in> set xs \<Longrightarrow> z \<in> set xs \<Longrightarrow> f z = f x \<Longrightarrow> z = x"
  by (auto simp: distinct_map inj_on_def)

lemma find_distinct_map:
  "distinct (map f xs) \<Longrightarrow> x \<in> set xs \<Longrightarrow> find (\<lambda>z. f z = f x) xs = Some x"
  by (induction xs) (auto simp: rev_image_eqI)

lemma find_catalog:
  assumes "tz \<in> set timezones"
  shows "find (\<lambda>z. tz_id z = tz_id tz) timezones = Some tz"
  using find_distinct_map[OF distinct_catalog_ids assms] .

lemma zone_invariant_initial: "zone_invariant (initial_state now)"
  by (simp add: zone_invariant_def initial_state_def timezones_def js_includes_def str_def)

lemma zone_invariant_add:
  assumes inv: "zone_invariant s" and pre: "precondition s (Add tzId)"
  shows "zone_invariant (fst (addTimezone s tzId))" and "snd (addTimezone s tzId) = None"
proof -
  have ne: "tzId \<noteq> []" using pre by (auto simp: catalog_ids str_def)
  have nn: "None \<notin> set (availableTimezones s)"
    using inv by (auto simp: zone_invariant_def)
  have r: "addTimezone s tzId =
      (s\<lparr>activeTimezones := activeTimezones s @ [JStr tzId],
         availableTimezones := filter (\<lambda>tz. tz_id (the tz) \<noteq> tzId) (availableTimezones s)\<rparr>, None)"
    using ne nn by (simp add: addTimezone_def Let_def)
  show "snd (addTimezone s tzId) = None" by (simp add: r)
  show "zone_invariant (fst (addTimezone s tzId))"
    using inv pre unfolding r zone_invariant_def by auto
qed

lemma zone_invariant_remove:
  assumes inv: "zone_invariant s" and pre: "precondition s (Remove tzId)"
  shows "zone_invariant (fst (removeTimezone s tzId))"
proof -
  define act where "act = activeTimezones s"
  define av where "av = availableTimezones s"
  define act' where "act' = filter (\<lambda>i. i \<noteq> JStr tzId) act"
  have i1: "distinct act" and i2: "set act \<subseteq> set (map (\<lambda>tz. JStr (tz_id tz)) timezones)"
    and i3: "distinct av"
    and i4: "set av = set (map Some (filter (\<lambda>tz. JStr (tz_id tz) \<notin> set act) timezones))"
    using inv by (simp_all add: zone_invariant_def act_def av_def)
  have mem: "JStr tzId \<in> set act" using pre by (simp add: act_def)
  obtain tz where tz: "tz \<in> set timezones" "tz_id tz = tzId"
    using i2 mem by auto
  have f: "find (\<lambda>z. tz_id z = tzId) timezones = Some tz"
    using find_catalog[OF tz(1)] tz(2) by simp
  have u: "\<And>z. z \<in> set timezones \<Longrightarrow> tz_id z = tzId \<Longrightarrow> z = tz"
    using distinct_map_unique[OF distinct_catalog_ids tz(1)] tz(2) by simp
  have r: "fst (removeTimezone s tzId)
      = s\<lparr>activeTimezones := act', availableTimezones := av @ [Some tz]\<rparr>"
    by (simp add: removeTimezone_def f act_def av_def act'_def)
  have sa: "set act' = set act - {JStr tzId}"
    by (auto simp: act'_def)
  have d1: "distinct act'" using i1 by (simp add: act'_def)
  have d2: "set act' \<subseteq> set (map (\<lambda>tz. JStr (tz_id tz)) timezones)"
    using i2 sa by blast
  have "Some tz \<notin> set av"
    using i4 mem tz(2) by auto
  then have d3: "distinct (av @ [Some tz])" using i3 by simp
  have "{z \<in> set timezones. JStr (tz_id z) \<notin> set act'}
      = {z \<in> set timezones. JStr (tz_id z) \<notin> set act} \<union> {tz}"
  proof (rule set_eqI)
    fix z :: timezone
    have a: "JStr (tz_id z) \<notin> set act' \<longleftrightarrow> JStr (tz_id z) \<notin> set act \<or> tz_id z = tzId"
      by (simp add: sa)
    have b: "z \<in> set timezones \<and> tz_id z = tzId \<longleftrightarrow> z = tz"
      using tz u by blast
    have c: "z = tz \<Longrightarrow> JStr (tz_id z) \<in> set act"
      using mem tz(2) by simp
    show "z \<in> {z \<in> set timezones. JStr (tz_id z) \<notin> set act'}
        \<longleftrightarrow> z \<in> {z \<in> set timezones. JStr (tz_id z) \<notin> set act} \<union> {tz}"
      using a b c by blast
  qed
  then have "set (map Some (filter (\<lambda>z. JStr (tz_id z) \<notin> set act') timezones))
      = set av \<union> {Some tz}"
    using i4 by (simp add: image_Un)
  then have d4: "set (av @ [Some tz])
      = set (map Some (filter (\<lambda>z. JStr (tz_id z) \<notin> set act') timezones))"
    by simp
  show ?thesis
    unfolding r zone_invariant_def using d1 d2 d3 d4 by simp
qed

lemma zone_invariant_move:
  assumes inv: "zone_invariant s" and pre: "precondition s (Move i d)"
  shows "zone_invariant (fst (onDragEnd s i d))"
proof (cases d)
  case None
  then show ?thesis using inv by (simp add: onDragEnd_def)
next
  case (Some j)
  then have m: "mset (move (activeTimezones s) i j) = mset (activeTimezones s)"
    using pre by (simp add: mset_move)
  have "set (move (activeTimezones s) i j) = set (activeTimezones s)"
    using m by (rule mset_eq_setD)
  moreover have "distinct (move (activeTimezones s) i j) = distinct (activeTimezones s)"
    using m by (rule mset_eq_imp_distinct_iff)
  ultimately show ?thesis
    using inv Some by (simp add: onDragEnd_def zone_invariant_def)
qed

lemma zone_invariant_reverse: "zone_invariant s \<Longrightarrow> zone_invariant (fst (reverseOrder s))"
  by (simp add: reverseOrder_def zone_invariant_def)

lemma zone_invariant_step:
  "zone_invariant s \<Longrightarrow> precondition s e \<Longrightarrow> zone_invariant (fst (step s e))"
  by (cases e) (simp_all add: zone_invariant_add zone_invariant_remove zone_invariant_move
      zone_invariant_reverse)

lemma zone_invariant_run:
  "zone_invariant s \<Longrightarrow> preconditions s es \<Longrightarrow> zone_invariant (run s es)"
  by (induction es arbitrary: s) (simp_all add: zone_invariant_step)

text \<open>
  Claim C6, as stated, fails: the handlers have no guard, so adding an id that is already
  active, here \<open>UTC\<close> in the initial state, puts it in the active list twice.
\<close>

theorem addTimezone_duplicate_counterexample:
  "activeTimezones (run (initial_state 0) [Add (str ''UTC'')])
     = [JStr (str ''UTC''), JStr (str ''IST''), JStr (str ''UTC'')]
   \<and> \<not> zone_invariant (run (initial_state 0) [Add (str ''UTC'')])"
  by (simp add: addTimezone_def initial_state_def Let_def timezones_def js_includes_def str_def
      zone_invariant_def)

text \<open>
  Claim C6, amended. Along every sequence of transitions, from the initial state, in which
  each transition meets its precondition (the added id is a catalog id that is not active,
  the removed id is active, the indices of a move are valid), the active list stays free of
  duplicates and within the catalog, and the available list stays exactly the catalog
  entries that are not active.
\<close>

theorem valid_transitions_keep_invariant:
  assumes "preconditions (initial_state now) es"
  shows "zone_invariant (run (initial_state now) es)"
  using zone_invariant_run[OF zone_invariant_initial assms] .

theorem valid_transitions_keep_invariant_witness:
  "preconditions (initial_state 0)
     [Add (str ''EST''), Move 0 (Some 2), Remove (str ''IST''), Reverse]
   \<and> zone_invariant (run (initial_state 0)
       [Add (str ''EST''), Move 0 (Some 2), Remove (str ''IST''), Reverse])"
proof -
  have p: "preconditions (initial_state 0)
      [Add (str ''EST''), Move 0 (Some 2), Remove (str ''IST''), Reverse]"
    by (simp add: addTimezone_def onDragEnd_def removeTimezone_def move_def splice_remove1_def
        splice_insert_def relativeStart_def initial_state_def Let_def timezones_def
        js_includes_def str_def)
  show ?thesis using p valid_transitions_keep_invariant[OF p] by simp
qed

section \<open>The slider and the time conversion\<close>

lemma TimeClip_int: "valid_time t \<Longrightarrow> TimeClip (real_of_int t) = Some t"
  by (simp add: TimeClip_def valid_time_def) linarith

text \<open>
  Claim C10. A slider event whose value parses to the integer \<open>v\<close> sets the selected
  instant to the previous one plus \<open>v * 60000\<close> milliseconds, and a second event is applied
  to the instant the first one left: the two values add up. The instants are those a
  \<open>Date\<close> can hold.
\<close>

theorem handleSliderChange_accumulates:
  assumes "selectedTime s = Some t"
    and "parseInt e1 = Some v1" "valid_time (t + v1 * 60000)"
    and "parseInt e2 = Some v2" "valid_time (t + v1 * 60000 + v2 * 60000)"
  shows "selectedTime (handleSliderChange s e1) = Some (t + v1 * 60000)
       \<and> selectedTime (handleSliderChange (handleSliderChange s e1) e2)
           = Some (t + v1 * 60000 + v2 * 60000)"
proof -
  have 1: "selectedTime (handleSliderChange s e1) = Some (t + v1 * 60000)"
    using assms(1,2) TimeClip_int[OF assms(3)]
    by (simp add: handleSliderChange_def Let_def getTime_def new_Date_number_def)
  have 2: "selectedTime (handleSliderChange (handleSliderChange s e1) e2)
           = Some (t + v1 * 60000 + v2 * 60000)"
    using 1 assms(4) TimeClip_int[OF assms(5)]
    by (simp add: handleSliderChange_def[of "handleSliderChange s e1"] Let_def getTime_def
        new_Date_number_def)
  show ?thesis using 1 2 by simp
qed

lemma parseInt_30: "parseInt (str ''30'') = Some 30"
  by (simp add: parseInt_def str_def isStrWhiteSpace_def isRadixDigit_def digitValue_def
      digitsValue_def Let_def)

lemma parseInt_minus_15: "parseInt (str ''-15'') = Some (- 15)"
  by (simp add: parseInt_def str_def isStrWhiteSpace_def isRadixDigit_def digitValue_def
      digitsValue_def Let_def)

theorem handleSliderChange_accumulates_witness:
  "selectedTime (initial_state 1000) = Some 1000
   \<and> parseInt (str ''30'') = Some 30 \<and> valid_time (1000 + 30 * 60000)
   \<and> parseInt (str ''-15'') = Some (- 15) \<and> valid_time (1000 + 30 * 60000 + (- 15) * 60000)
   \<and> selectedTime (handleSliderChange (handleSliderChange (initial_state 1000) (str ''30''))
        (str ''-15'')) = Some 901000"
  using handleSliderChange_accumulates[of "initial_state 1000" 1000 "str ''30''" 30
      "str ''-15''" "- 15"]
  by (simp add: parseInt_30 parseInt_minus_15 valid_time_def maxTime_def initial_state_def)

text \<open>
  Claim C2, as stated, fails: the result depends on the host's time zone. On a host five
  hours behind UTC, the epoch converted to the zone of offset 0 is five hours after the
  epoch.
\<close>

theorem getTimeInTimezone_host_counterexample:
  "getTimeInTimezone host_new_york (Some 0) 0 = Some 18000000
   \<and> getTimeInTimezone host_new_york (Some 0) 0 \<noteq> Some (0 + 0 * 3600000)"
  by (simp add: getTimeInTimezone_def getTime_def getTimezoneOffset_def host_new_york_def
      new_Date_number_def TimeClip_def maxTime_def)

lemma catalog_offset_ms:
  "tz \<in> set timezones \<Longrightarrow> 3600000 * tz_offset tz = real_of_int \<lfloor>3600000 * tz_offset tz\<rfloor>"
  by (auto simp: timezones_def)

text \<open>
  Claim C2, amended. For a catalog zone of offset \<open>O\<close> and an instant \<open>I\<close>, the function
  returns \<open>I\<close> plus the host's own offset from UTC (in minutes, as
  \<open>getTimezoneOffset\<close> gives it) plus exactly \<open>O\<close> hours, fractional hours included,
  as long as that sum is a time a \<open>Date\<close> can hold. On a host whose offset is 0 the
  result is \<open>I + O * 3600000\<close>.
\<close>

theorem getTimeInTimezone_shifts:
  assumes "tz \<in> set timezones"
    and "valid_time (t + timezoneOffset h t * 60000 + \<lfloor>3600000 * tz_offset tz\<rfloor>)"
  shows "map_option real_of_int (getTimeInTimezone h (Some t) (tz_offset tz))
           = Some (real_of_int t + real_of_int (timezoneOffset h t) * 60000 + tz_offset tz * 3600000)
       \<and> (timezoneOffset h t = 0 \<longrightarrow>
            map_option real_of_int (getTimeInTimezone h (Some t) (tz_offset tz))
              = Some (real_of_int t + tz_offset tz * 3600000))"
proof -
  define r where "r = t + timezoneOffset h t * 60000 + \<lfloor>3600000 * tz_offset tz\<rfloor>"
  have e: "real_of_int t + real_of_int (timezoneOffset h t) * 60000 + 3600000 * tz_offset tz
      = real_of_int r"
    using catalog_offset_ms[OF assms(1)] by (simp add: r_def)
  have "getTimeInTimezone h (Some t) (tz_offset tz) = TimeClip (real_of_int r)"
    by (simp add: getTimeInTimezone_def getTime_def getTimezoneOffset_def new_Date_number_def e)
  then have g: "getTimeInTimezone h (Some t) (tz_offset tz) = Some r"
    using TimeClip_int[of r] assms(2) by (simp add: r_def)
  show ?thesis
    using e by (simp add: g algebra_simps)
qed

theorem getTimeInTimezone_shifts_witness:
  "\<lparr>tz_id = str ''IST'', tz_name = str ''India Standard Time'', tz_offset = 11 / 2\<rparr>
     \<in> set timezones
   \<and> getTimeInTimezone host_new_york (Some 1000) (11 / 2) = Some 37801000"
  using getTimeInTimezone_shifts[of
      "\<lparr>tz_id = str ''IST'', tz_name = str ''India Standard Time'', tz_offset = 11 / 2\<rparr>"
      1000 host_new_york]
  by (simp add: timezones_def valid_time_def maxTime_def host_new_york_def)


section \<open>Decoding a token\<close>

lemma atob_empty: "atob [] = Inr []"
  by (simp add: atob_def strip_padding_def)

lemma JSON_parse_empty: "JSON_parse [] = Inl SyntaxError"
  by (simp add: JSON_parse_def skip_ws_def)

lemma decodeState_empty: "decodeState h [] = Inl SyntaxError"
  by (simp add: decodeState_def atob_empty JSON_parse_empty)

lemmas json_eval = JSON_parse_def skip_ws_def isJSONWhiteSpace_def str_def parse_number_def
  toDouble_def floor_log2_def round_half_even_def pow2_def isDigit_def digits_nat_def
  object_of_def cons_unit_def hexValue_def unescape_def Let_def

lemma decodeState_accepts:
  assumes "atob token = Inr text" "JSON_parse text = Inr v"
    and "get_property v (str ''time'') = Inr t" "truthy t"
    and "get_property v (str ''timezones'') = Inr (JArr zs)"
    and "new_Date h t = Inr d"
  shows "decodeState h token = Inr (d, zs)"
  using assms by (simp add: decodeState_def)

lemma decodeState_new_Date_throws:
  assumes "atob token = Inr text" "JSON_parse text = Inr v"
    and "get_property v (str ''time'') = Inr t" "truthy t"
    and "get_property v (str ''timezones'') = Inr (JArr zs)"
    and "new_Date h t = Inl e"
  shows "decodeState h token = Inl e"
  using assms by (simp add: decodeState_def)

lemma new_Date_primitive:
  "(case t of JArr xs \<Rightarrow> False | JObj kvs \<Rightarrow> False | _ \<Rightarrow> True) \<Longrightarrow> \<exists>d. new_Date h t = Inr d"
  by (cases t) (auto simp: new_Date_def split: jsnum.splits)

text \<open>
  Claim C7, as stated, fails: the token of \<open>{"time":{"toString":1},"timezones":["EST"]}\<close>
  passes both structural checks (its \<open>time\<close> is an object, which is truthy, and its
  \<open>timezones\<close> is an array), but \<open>new Date(decodedState.time)\<close> throws a \<open>TypeError\<close>, as the
  object has an own \<open>toString\<close> that cannot be called. The exception is caught: the
  active list stays as it was and the advisory message is set.
\<close>

theorem time_conversion_throws_counterexample:
  "atob (str ''eyJ0aW1lIjp7InRvU3RyaW5nIjoxfSwidGltZXpvbmVzIjpbIkVTVCJdfQ=='')
     = Inr (str ''{'' @ [34] @ str ''time'' @ [34] @ str '':{'' @ [34] @ str ''toString'' @ [34]
            @ str '':1},'' @ [34] @ str ''timezones'' @ [34] @ str '':['' @ [34] @ str ''EST''
            @ [34] @ str '']}'')
   \<and> JSON_parse (str ''{'' @ [34] @ str ''time'' @ [34] @ str '':{'' @ [34] @ str ''toString''
            @ [34] @ str '':1},'' @ [34] @ str ''timezones'' @ [34] @ str '':['' @ [34]
            @ str ''EST'' @ [34] @ str '']}'')
       = Inr (JObj [(str ''time'', JObj [(str ''toString'', JNum (Finite 1))]),
                    (str ''timezones'', JArr [JStr (str ''EST'')])])
   \<and> truthy (JObj [(str ''toString'', JNum (Finite 1))])
   \<and> decodeState host_new_york
        (str ''eyJ0aW1lIjp7InRvU3RyaW5nIjoxfSwidGltZXpvbmVzIjpbIkVTVCJdfQ=='') = Inl TypeError
   \<and> activeTimezones (useEffect host_new_york
        (Some (str ''eyJ0aW1lIjp7InRvU3RyaW5nIjoxfSwidGltZXpvbmVzIjpbIkVTVCJdfQ==''))
        (initial_state 0)) = [JStr (str ''UTC''), JStr (str ''IST'')]
   \<and> error (useEffect host_new_york
        (Some (str ''eyJ0aW1lIjp7InRvU3RyaW5nIjoxfSwidGltZXpvbmVzIjpbIkVTVCJdfQ==''))
        (initial_state 0)) = advisory_message"
proof -
  define token where
    "token = str ''eyJ0aW1lIjp7InRvU3RyaW5nIjoxfSwidGltZXpvbmVzIjpbIkVTVCJdfQ==''"
  define json where
    "json = str ''{'' @ [34] @ str ''time'' @ [34] @ str '':{'' @ [34] @ str ''toString'' @ [34]
            @ str '':1},'' @ [34] @ str ''timezones'' @ [34] @ str '':['' @ [34] @ str ''EST''
            @ [34] @ str '']}''"
  define v where
    "v = JObj [(str ''time'', JObj [(str ''toString'', JNum (Finite 1))]),
               (str ''timezones'', JArr [JStr (str ''EST'')])]"
  have a: "atob token = Inr json"
    unfolding token_def json_def by code_simp
  have p: "JSON_parse json = Inr v"
    unfolding json_def v_def by (simp add: json_eval)
  have g1: "get_property v (str ''time'') = Inr (JObj [(str ''toString'', JNum (Finite 1))])"
    by (simp add: v_def get_property_def str_def)
  have g2: "get_property v (str ''timezones'') = Inr (JArr [JStr (str ''EST'')])"
    by (simp add: v_def get_property_def str_def)
  have t: "truthy (JObj [(str ''toString'', JNum (Finite 1))])" by simp
  have n: "new_Date host_new_york (JObj [(str ''toString'', JNum (Finite 1))]) = Inl TypeError"
    by (simp add: new_Date_def)
  have d: "decodeState host_new_york token = Inl TypeError"
    using a p g1 t g2 n by (rule decodeState_new_Date_throws)
  have ne: "token \<noteq> []" by (simp add: token_def str_def)
  have u: "useEffect host_new_york (Some token) (initial_state 0)
      = (initial_state 0)\<lparr>error := advisory_message, isLoading := False\<rparr>"
    using ne d by (simp add: useEffect_def)
  have r1: "activeTimezones (useEffect host_new_york (Some token) (initial_state 0))
      = [JStr (str ''UTC''), JStr (str ''IST'')]"
    unfolding u by (simp add: initial_state_def)
  have r2: "error (useEffect host_new_york (Some token) (initial_state 0)) = advisory_message"
    unfolding u by simp
  show ?thesis
    using a p t d r1 r2 unfolding token_def json_def v_def by - (intro conjI; assumption)
qed

text \<open>
  Claim C7, amended. Take a token whose decoded value has a truthy \<open>time\<close> and an array
  \<open>timezones\<close>. When \<open>new Date\<close> converts the \<open>time\<close> value without throwing, which it
  does for every value that is not an array or an object, the token is accepted and the
  array becomes the active list as it is, whatever its elements are: nothing checks them
  against the catalog or for duplicates; the available list is computed from it and no
  error is set. When \<open>new Date\<close> throws, the token is rejected: the lists are kept and
  the advisory message is set.
\<close>

theorem useEffect_installs_zones_verbatim:
  assumes "atob token = Inr text" "JSON_parse text = Inr v"
    and "get_property v (str ''time'') = Inr t" "truthy t"
    and "get_property v (str ''timezones'') = Inr (JArr zs)"
  shows "(new_Date h t = Inr d \<longrightarrow>
            selectedTime (useEffect h (Some token) s) = d
          \<and> activeTimezones (useEffect h (Some token) s) = zs
          \<and> availableTimezones (useEffect h (Some token) s)
              = map Some (filter (\<lambda>tz. \<not> js_includes zs (tz_id tz)) timezones)
          \<and> error (useEffect h (Some token) s) = error s)
       \<and> (new_Date h t = Inl e \<longrightarrow>
            useEffect h (Some token) s = s\<lparr>error := advisory_message, isLoading := False\<rparr>)
       \<and> ((case t of JArr xs \<Rightarrow> False | JObj kvs \<Rightarrow> False | _ \<Rightarrow> True) \<longrightarrow>
            (\<exists>d'. new_Date h t = Inr d'))"
proof -
  have ne: "token \<noteq> []"
    using assms(1,2) atob_empty JSON_parse_empty by auto
  have a: "new_Date h t = Inr d \<Longrightarrow> decodeState h token = Inr (d, zs)"
    using assms by (rule decodeState_accepts)
  have b: "new_Date h t = Inl e \<Longrightarrow> decodeState h token = Inl e"
    using assms by (rule decodeState_new_Date_throws)
  show ?thesis
    using ne a b new_Date_primitive[of t h] by (auto simp: useEffect_def)
qed

lemma token_unknown_ids:
  "atob (str ''eyJ0aW1lIjoxLCJ0aW1lem9uZXMiOlsiWFlaIiwiWFlaIiw3XX0='')
     = Inr (str ''{'' @ [34] @ str ''time'' @ [34] @ str '':1,'' @ [34] @ str ''timezones''
            @ [34] @ str '':['' @ [34] @ str ''XYZ'' @ [34] @ str '','' @ [34] @ str ''XYZ''
            @ [34] @ str '',7]}'')"
  by code_simp

lemma text_unknown_ids:
  "JSON_parse (str ''{'' @ [34] @ str ''time'' @ [34] @ str '':1,'' @ [34] @ str ''timezones''
            @ [34] @ str '':['' @ [34] @ str ''XYZ'' @ [34] @ str '','' @ [34] @ str ''XYZ''
            @ [34] @ str '',7]}'')
     = Inr (JObj [(str ''time'', JNum (Finite 1)),
                  (str ''timezones'',
                   JArr [JStr (str ''XYZ''), JStr (str ''XYZ''), JNum (Finite 7)])])"
  by (simp add: json_eval)

lemma value_unknown_ids:
  "get_property (JObj [(str ''time'', JNum (Finite 1)),
                  (str ''timezones'',
                   JArr [JStr (str ''XYZ''), JStr (str ''XYZ''), JNum (Finite 7)])])
      (str ''time'') = Inr (JNum (Finite 1))"
  "get_property (JObj [(str ''time'', JNum (Finite 1)),
                  (str ''timezones'',
                   JArr [JStr (str ''XYZ''), JStr (str ''XYZ''), JNum (Finite 7)])])
      (str ''timezones'')
     = Inr (JArr [JStr (str ''XYZ''), JStr (str ''XYZ''), JNum (Finite 7)])"
  "new_Date host_new_york (JNum (Finite 1)) = Inr (Some 1)"
  by (simp_all add: get_property_def str_def new_Date_def TimeClip_def maxTime_def)

theorem useEffect_installs_zones_verbatim_witness:
  "truthy (JNum (Finite 1))
   \<and> new_Date host_new_york (JNum (Finite 1)) = Inr (Some 1)
   \<and> selectedTime (useEffect host_new_york
        (Some (str ''eyJ0aW1lIjoxLCJ0aW1lem9uZXMiOlsiWFlaIiwiWFlaIiw3XX0='')) (initial_state 0))
       = Some 1
   \<and> activeTimezones (useEffect host_new_york
        (Some (str ''eyJ0aW1lIjoxLCJ0aW1lem9uZXMiOlsiWFlaIiwiWFlaIiw3XX0='')) (initial_state 0))
       = [JStr (str ''XYZ''), JStr (str ''XYZ''), JNum (Finite 7)]"
proof -
  have t: "truthy (JNum (Finite 1))" by simp
  show ?thesis
    using t value_unknown_ids(3)
      useEffect_installs_zones_verbatim[OF token_unknown_ids text_unknown_ids
        value_unknown_ids(1) t value_unknown_ids(2), of host_new_york "Some 1" "initial_state 0"]
    by simp
qed

text \<open>
  Claim C3, as stated, fails: only the truthiness of \<open>time\<close> and the array-ness of
  \<open>timezones\<close> are checked. The token of \<open>{"time":9e15,"timezones":[7]}\<close> is accepted,
  though its instant is out of the range of a \<open>Date\<close> (the selected time becomes an
  Invalid Date) and its zone list holds a number; no error is set.
\<close>

theorem unchecked_fields_accepted_counterexample:
  "decodeState host_new_york (str ''eyJ0aW1lIjo5ZTE1LCJ0aW1lem9uZXMiOls3XX0='')
     = Inr (None, [JNum (Finite 7)])
   \<and> error (useEffect host_new_york (Some (str ''eyJ0aW1lIjo5ZTE1LCJ0aW1lem9uZXMiOls3XX0=''))
        (initial_state 0)) = []"
proof -
  define token where "token = str ''eyJ0aW1lIjo5ZTE1LCJ0aW1lem9uZXMiOls3XX0=''"
  define json where
    "json = str ''{'' @ [34] @ str ''time'' @ [34] @ str '':9e15,'' @ [34] @ str ''timezones''
            @ [34] @ str '':[7]}''"
  define v where
    "v = JObj [(str ''time'', JNum (Finite 9000000000000000)),
               (str ''timezones'', JArr [JNum (Finite 7)])]"
  have a: "atob token = Inr json"
    unfolding token_def json_def by code_simp
  have p: "JSON_parse json = Inr v"
    unfolding json_def v_def by (simp add: json_eval)
  have g1: "get_property v (str ''time'') = Inr (JNum (Finite 9000000000000000))"
    by (simp add: v_def get_property_def str_def)
  have g2: "get_property v (str ''timezones'') = Inr (JArr [JNum (Finite 7)])"
    by (simp add: v_def get_property_def str_def)
  have t: "truthy (JNum (Finite 9000000000000000))" by simp
  have n: "new_Date host_new_york (JNum (Finite 9000000000000000)) = Inr None"
    by (simp add: new_Date_def TimeClip_def maxTime_def)
  have d: "decodeState host_new_york token = Inr (None, [JNum (Finite 7)])"
    using a p g1 t g2 n by (rule decodeState_accepts)
  have ne: "token \<noteq> []" by (simp add: token_def str_def)
  have e: "error (useEffect host_new_york (Some token) (initial_state 0)) = []"
    using ne d by (simp add: useEffect_def initial_state_def)
  show ?thesis using d e unfolding token_def by - (intro conjI; assumption)
qed

text \<open>
  Claim C3, amended. Decoding rejects a token that \<open>atob\<close> rejects (not base64), whose
  decoded text \<open>JSON.parse\<close> rejects, whose value is \<open>null\<close>, whose \<open>time\<close> is missing or
  falsy, whose \<open>timezones\<close> is missing or not an array, or whose \<open>time\<close> makes \<open>new Date\<close>
  throw; it accepts every other token. Each rejection of a non-empty token sets the same
  advisory message: the kinds are not told apart.
\<close>

theorem decodeState_rejects:
  "(atob token = Inl e \<longrightarrow> decodeState h token = Inl e)
   \<and> (atob token = Inr text \<and> JSON_parse text = Inl e \<longrightarrow> decodeState h token = Inl e)
   \<and> (atob token = Inr text \<and> JSON_parse text = Inr JNull \<longrightarrow>
        decodeState h token = Inl TypeError)
   \<and> (atob token = Inr text \<and> JSON_parse text = Inr v
        \<and> get_property v (str ''time'') = Inr t \<and> \<not> truthy t \<longrightarrow>
        decodeState h token = Inl (Error (str ''Invalid state format'')))
   \<and> (atob token = Inr text \<and> JSON_parse text = Inr v
        \<and> get_property v (str ''time'') = Inr t \<and> truthy t
        \<and> get_property v (str ''timezones'') = Inr z \<and> (case z of JArr zs \<Rightarrow> False | _ \<Rightarrow> True) \<longrightarrow>
        decodeState h token = Inl (Error (str ''Invalid state format'')))
   \<and> (atob token = Inr text \<and> JSON_parse text = Inr v
        \<and> get_property v (str ''time'') = Inr t \<and> truthy t
        \<and> get_property v (str ''timezones'') = Inr (JArr zs) \<and> new_Date h t = Inl e \<longrightarrow>
        decodeState h token = Inl e)
   \<and> (atob token = Inr text \<and> JSON_parse text = Inr v
        \<and> get_property v (str ''time'') = Inr t \<and> truthy t
        \<and> get_property v (str ''timezones'') = Inr (JArr zs) \<and> new_Date h t = Inr d \<longrightarrow>
        decodeState h token = Inr (d, zs))
   \<and> (token \<noteq> [] \<and> decodeState h token = Inl e \<longrightarrow>
        error (useEffect h (Some token) s) = advisory_message)"
  by (auto simp: decodeState_def useEffect_def get_property_def split: jsval.splits)

lemma token_missing_zones:
  "atob (str ''eyJ0aW1lIjoieCJ9'') = Inr (str ''{'' @ [34] @ str ''time'' @ [34] @ str '':''
      @ [34] @ str ''x'' @ [34] @ str ''}'')"
  "JSON_parse (str ''{'' @ [34] @ str ''time'' @ [34] @ str '':''
      @ [34] @ str ''x'' @ [34] @ str ''}'') = Inr (JObj [(str ''time'', JStr (str ''x''))])"
  "get_property (JObj [(str ''time'', JStr (str ''x''))]) (str ''time'') = Inr (JStr (str ''x''))"
  "get_property (JObj [(str ''time'', JStr (str ''x''))]) (str ''timezones'') = Inr Undefined"
  by code_simp+

lemma token_not_base64: "atob (str ''not-base64!!'') = Inl InvalidCharacterError"
  by code_simp

theorem decodeState_rejects_witness:
  "atob (str ''not-base64!!'') = Inl InvalidCharacterError
   \<and> decodeState host_new_york (str ''not-base64!!'') = Inl InvalidCharacterError
   \<and> decodeState host_new_york (str ''eyJ0aW1lIjoieCJ9'')
       = Inl (Error (str ''Invalid state format''))
   \<and> error (useEffect host_new_york (Some (str ''not-base64!!'')) (initial_state 0))
       = advisory_message"
proof -
  have 1: "decodeState host_new_york (str ''not-base64!!'') = Inl InvalidCharacterError"
    using decodeState_rejects[of "str ''not-base64!!''" InvalidCharacterError host_new_york]
      token_not_base64 by simp
  have 2: "decodeState host_new_york (str ''eyJ0aW1lIjoieCJ9'')
       = Inl (Error (str ''Invalid state format''))"
    using decodeState_rejects[of "str ''eyJ0aW1lIjoieCJ9''" _ host_new_york
        "str ''{'' @ [34] @ str ''time'' @ [34] @ str '':'' @ [34] @ str ''x'' @ [34] @ str ''}''"
        "JObj [(str ''time'', JStr (str ''x''))]" "JStr (str ''x'')" Undefined]
      token_missing_zones by (simp add: str_def)
  have ne: "str ''not-base64!!'' \<noteq> []" by (simp add: str_def)
  have 3: "error (useEffect host_new_york (Some (str ''not-base64!!'')) (initial_state 0))
       = advisory_message"
    using decodeState_rejects[of "str ''not-base64!!''" InvalidCharacterError host_new_york
        _ _ _ _ _ _ "initial_state 0"] 1 ne by simp
  show ?thesis using 1 2 3 token_not_base64 by simp
qed

text \<open>
  Claim C5, as stated, fails: the token of \<open>{"time":9e15,"timezones":["UTC"]}\<close> carries an
  instant outside the range of a \<open>Date\<close>, yet it is applied: the selected time becomes an
  Invalid Date, the active list becomes \<open>[UTC]\<close>, and no advisory message is set.
\<close>

theorem invalid_instant_installed_counterexample:
  "selectedTime (useEffect host_new_york
      (Some (str ''eyJ0aW1lIjo5ZTE1LCJ0aW1lem9uZXMiOlsiVVRDIl19'')) (initial_state 0)) = None
   \<and> activeTimezones (useEffect host_new_york
      (Some (str ''eyJ0aW1lIjo5ZTE1LCJ0aW1lem9uZXMiOlsiVVRDIl19'')) (initial_state 0))
       = [JStr (str ''UTC'')]
   \<and> error (useEffect host_new_york
      (Some (str ''eyJ0aW1lIjo5ZTE1LCJ0aW1lem9uZXMiOlsiVVRDIl19'')) (initial_state 0)) = []"
proof -
  define token where "token = str ''eyJ0aW1lIjo5ZTE1LCJ0aW1lem9uZXMiOlsiVVRDIl19''"
  define json where
    "json = str ''{'' @ [34] @ str ''time'' @ [34] @ str '':9e15,'' @ [34] @ str ''timezones''
            @ [34] @ str '':['' @ [34] @ str ''UTC'' @ [34] @ str '']}''"
  define v where
    "v = JObj [(str ''time'', JNum (Finite 9000000000000000)),
               (str ''timezones'', JArr [JStr (str ''UTC'')])]"
  have a: "atob token = Inr json"
    unfolding token_def json_def by code_simp
  have p: "JSON_parse json = Inr v"
    unfolding json_def v_def by (simp add: json_eval)
  have g1: "get_property v (str ''time'') = Inr (JNum (Finite 9000000000000000))"
    by (simp add: v_def get_property_def str_def)
  have g2: "get_property v (str ''timezones'') = Inr (JArr [JStr (str ''UTC'')])"
    by (simp add: v_def get_property_def str_def)
  have t: "truthy (JNum (Finite 9000000000000000))" by simp
  have n: "new_Date host_new_york (JNum (Finite 9000000000000000)) = Inr None"
    by (simp add: new_Date_def TimeClip_def maxTime_def)
  have d: "decodeState host_new_york token = Inr (None, [JStr (str ''UTC'')])"
    using a p g1 t g2 n by (rule decodeState_accepts)
  have ne: "token \<noteq> []" by (simp add: token_def str_def)
  have "selectedTime (useEffect host_new_york (Some token) (initial_state 0)) = None
      \<and> activeTimezones (useEffect host_new_york (Some token) (initial_state 0))
          = [JStr (str ''UTC'')]
      \<and> error (useEffect host_new_york (Some token) (initial_state 0)) = []"
    using ne d by (simp add: useEffect_def initial_state_def)
  then show ?thesis unfolding token_def .
qed

text \<open>
  Claim C5, amended. When decoding a non-empty token throws (in \<open>atob\<close>, in \<open>JSON.parse\<close>,
  at the check of the two fields, or in \<open>new Date\<close>), the exception is caught and nothing
  but the advisory message and the loading flag changes: from the default state the
  result is the default state with the advisory message. An empty token is treated as no
  token: the state is kept and no message is set.
\<close>

theorem decode_failure_keeps_state:
  assumes "token \<noteq> []" and "decodeState h token = Inl e"
  shows "useEffect h (Some token) s = s\<lparr>error := advisory_message, isLoading := False\<rparr>
       \<and> useEffect h (Some token) (initial_state now)
           = (initial_state now)\<lparr>error := advisory_message, isLoading := False\<rparr>
       \<and> useEffect h (Some []) s = s\<lparr>isLoading := False\<rparr>"
  using assms by (simp add: useEffect_def)

theorem decode_failure_keeps_state_witness:
  "str ''not-base64!!'' \<noteq> []
   \<and> decodeState host_new_york (str ''not-base64!!'') = Inl InvalidCharacterError
   \<and> useEffect host_new_york (Some (str ''not-base64!!'')) (initial_state 0)
       = (initial_state 0)\<lparr>error := advisory_message, isLoading := False\<rparr>"
proof -
  have ne: "str ''not-base64!!'' \<noteq> []" by (simp add: str_def)
  have d: "decodeState host_new_york (str ''not-base64!!'') = Inl InvalidCharacterError"
    by (simp add: decodeState_def token_not_base64)
  show ?thesis
    using ne d decode_failure_keeps_state[OF ne d, of "initial_state 0" 0] by simp
qed

end
